theory Spec2Isabelle
  imports Main "HOL-Library.Word"
begin

section \<open>Machine types, memory and the error policy\<close>

text \<open>
  \<open>std::size_t\<close> and \<open>std::ptrdiff_t\<close> are 64-bit words. \<open>size_type\<close> is read
  unsigned (the order \<open>\<le>\<close> on words, \<open>unat\<close>); \<open>difference_type\<close> is read in two's
  complement (\<open>sint\<close>). A conversion between the two keeps the bits.
\<close>

type_synonym size_type = "64 word"
type_synonym difference_type = "64 word"

text \<open>
  An address is a natural number; a pointer is an optional address, \<open>None\<close> being
  \<open>nullptr\<close>. The memory maps the address of every live object to its value; for an
  \<open>array_view<T>\<close> addresses count elements of type \<open>T\<close>, for a \<open>strided_array_view\<close>
  they count bytes and the memory gives the \<open>T\<close> object that starts at a byte.
\<close>

type_synonym address = nat
type_synonym pointer = "address option"
type_synonym 'a memory = "address \<Rightarrow> 'a option"

text \<open>
  \<open>ARRAY_VIEW_ERROR(message)\<close> either aborts or throws; both end the operation, which is
  modelled by the result \<open>Inl e\<close>. There is one constructor per family of messages:
  \<^item> \<open>NullAccess\<close>: "array_view pointer is null or size is zero!",
    "strided_array_view: null pointer!";
  \<^item> \<open>OutOfBounds\<close>: "... index is out-of-bounds!";
  \<^item> \<open>SliceZeroSize\<close>: "array_view slice with zero size!";
  \<^item> \<open>SliceOffset\<close>: "array_view slice offset greater or equal size!";
  \<^item> \<open>SliceTooLarge\<close>: "array_view slice size is greater than total size!";
  \<^item> \<open>NotDereferenceable\<close>: "... iterator not dereferenceable!";
  \<^item> \<open>CrossViewOperation\<close>: "Array iterators belong to different objects!";
  \<^item> \<open>InvalidIterator\<close>: "Incrementing (Decrementing) an invalid array iterator!".
  \<open>UndefinedBehaviour\<close> is not raised by the code: it is the model's value for an
  operation that C++ leaves undefined (a read through \<open>nullptr\<close> or at an address
  that holds no object, signed overflow, division by zero).
\<close>

datatype error =
    NullAccess
  | OutOfBounds
  | SliceZeroSize
  | SliceOffset
  | SliceTooLarge
  | NotDereferenceable
  | CrossViewOperation
  | InvalidIterator
  | UndefinedBehaviour

type_synonym 'a result = "error + 'a"

text \<open>\<open>p + n\<close> on a pointer and an unsigned offset.\<close>

definition ptr_add :: "pointer \<Rightarrow> size_type \<Rightarrow> pointer" where
  "ptr_add p n = (case p of None \<Rightarrow> None | Some a \<Rightarrow> Some (a + unat n))"

text \<open>\<open>p - n\<close>: there is no address below zero.\<close>

definition ptr_sub :: "pointer \<Rightarrow> size_type \<Rightarrow> pointer" where
  "ptr_sub p n =
     (case p of None \<Rightarrow> None | Some a \<Rightarrow> if unat n \<le> a then Some (a - unat n) else None)"

text \<open>\<open>*p\<close>: the object stored at \<open>p\<close>.\<close>

definition load :: "'a memory \<Rightarrow> pointer \<Rightarrow> 'a result" where
  "load mem p =
     (case p of
        None \<Rightarrow> Inl UndefinedBehaviour
      | Some a \<Rightarrow> (case mem a of None \<Rightarrow> Inl UndefinedBehaviour | Some x \<Rightarrow> Inr x))"

section \<open>\<open>array_view\<close>\<close>

record array_view =
  m_pointer :: pointer
  m_size_in_items :: size_type

text \<open>The default constructor, also the value of \<open>return {}\<close>.\<close>

definition array_view_default :: array_view where
  "array_view_default = \<lparr>m_pointer = None, m_size_in_items = 0\<rparr>"

text \<open>\<open>array_view(ConvertibleType * array_ptr, size_type size_in_items)\<close>.\<close>

definition array_view_of :: "pointer \<Rightarrow> size_type \<Rightarrow> array_view" where
  "array_view_of array_ptr size_in_items =
     \<lparr>m_pointer = array_ptr, m_size_in_items = size_in_items\<rparr>"

definition reset :: "array_view \<Rightarrow> array_view" where
  "reset v = v\<lparr>m_pointer := None, m_size_in_items := 0\<rparr>"

definition array_view_size :: "array_view \<Rightarrow> size_type" where
  "array_view_size v = m_size_in_items v"

definition array_view_empty :: "array_view \<Rightarrow> bool" where
  "array_view_empty v \<longleftrightarrow> array_view_size v = 0"

definition array_view_data :: "array_view \<Rightarrow> pointer" where
  "array_view_data v = m_pointer v"

text \<open>\<open>operator == (std::nullptr_t)\<close>.\<close>

definition array_view_is_null :: "array_view \<Rightarrow> bool" where
  "array_view_is_null v \<longleftrightarrow> array_view_data v = None"

definition check_not_null :: "array_view \<Rightarrow> unit result" where
  "check_not_null v =
     (if array_view_data v = None \<or> array_view_empty v then Inl NullAccess else Inr ())"

text \<open>
  \<open>slice(offset_in_items, item_count)\<close>. The first argument of every function that has
  \<open>#if ARRAY_VIEW_DEBUG_CHECKS\<close> blocks is the value of that switch.
\<close>

definition slice_count :: "bool \<Rightarrow> array_view \<Rightarrow> size_type \<Rightarrow> size_type \<Rightarrow> array_view result" where
  "slice_count dbg v offset_in_items item_count =
     (if array_view_data v = None \<or> array_view_empty v \<or> item_count = 0
      then Inr array_view_default
      else if dbg \<and> item_count = 0 then Inl SliceZeroSize
      else if dbg \<and> offset_in_items \<ge> array_view_size v then Inl SliceOffset
      else if dbg \<and> offset_in_items + item_count > array_view_size v then Inl SliceTooLarge
      else Inr (array_view_of (ptr_add (m_pointer v) offset_in_items) item_count))"

text \<open>\<open>slice(offset_in_items)\<close>.\<close>

definition slice_offset :: "bool \<Rightarrow> array_view \<Rightarrow> size_type \<Rightarrow> array_view result" where
  "slice_offset dbg v offset_in_items =
     (if array_view_data v = None \<or> array_view_empty v then Inr array_view_default
      else if dbg \<and> offset_in_items \<ge> array_view_size v then Inl SliceOffset
      else slice_count dbg v offset_in_items (array_view_size v - offset_in_items))"

text \<open>\<open>at(index)\<close>: no part of it depends on the switch.\<close>

definition array_view_at :: "'a memory \<Rightarrow> array_view \<Rightarrow> size_type \<Rightarrow> 'a result" where
  "array_view_at mem v index =
     (case check_not_null v of
        Inl e \<Rightarrow> Inl e
      | Inr _ \<Rightarrow>
          if index \<ge> array_view_size v then Inl OutOfBounds
          else load mem (ptr_add (array_view_data v) index))"

text \<open>\<open>operator[](index)\<close>.\<close>

definition array_view_index :: "bool \<Rightarrow> 'a memory \<Rightarrow> array_view \<Rightarrow> size_type \<Rightarrow> 'a result" where
  "array_view_index dbg mem v index =
     (if dbg then
        (case check_not_null v of
           Inl e \<Rightarrow> Inl e
         | Inr _ \<Rightarrow>
             if index \<ge> array_view_size v then Inl OutOfBounds
             else load mem (ptr_add (array_view_data v) index))
      else load mem (ptr_add (array_view_data v) index))"

definition array_view_front :: "bool \<Rightarrow> 'a memory \<Rightarrow> array_view \<Rightarrow> 'a result" where
  "array_view_front dbg mem v =
     (if dbg then
        (case check_not_null v of
           Inl e \<Rightarrow> Inl e
         | Inr _ \<Rightarrow> load mem (array_view_data v))
      else load mem (array_view_data v))"

definition array_view_back :: "bool \<Rightarrow> 'a memory \<Rightarrow> array_view \<Rightarrow> 'a result" where
  "array_view_back dbg mem v =
     (if dbg then
        (case check_not_null v of
           Inl e \<Rightarrow> Inl e
         | Inr _ \<Rightarrow> load mem (ptr_sub (ptr_add (array_view_data v) (array_view_size v)) 1))
      else load mem (ptr_sub (ptr_add (array_view_data v) (array_view_size v)) 1))"

section \<open>\<open>strided_array_view\<close>\<close>

text \<open>
  The template parameters \<open>OffsetBytes\<close> and \<open>StrideBytes\<close> are fields that no
  operation changes.
\<close>

record strided_array_view =
  OffsetBytes :: size_type
  StrideBytes :: size_type
  m_byte_pointer :: pointer
  m_size_in_bytes :: size_type

text \<open>\<open>strided_array_view(StructuredType * array_ptr, size_type size_in_items)\<close>, with
  \<open>sizeof(StructuredType)\<close> as \<open>struct_size\<close>.\<close>

definition strided_array_view_of ::
  "size_type \<Rightarrow> size_type \<Rightarrow> size_type \<Rightarrow> pointer \<Rightarrow> size_type \<Rightarrow> strided_array_view" where
  "strided_array_view_of offs stride struct_size array_ptr size_in_items =
     \<lparr>OffsetBytes = offs, StrideBytes = stride,
      m_byte_pointer = array_ptr, m_size_in_bytes = size_in_items * struct_size\<rparr>"

definition strided_data :: "strided_array_view \<Rightarrow> pointer" where
  "strided_data v = m_byte_pointer v"

definition strided_size_bytes :: "strided_array_view \<Rightarrow> size_type" where
  "strided_size_bytes v = m_size_in_bytes v"

definition strided_empty :: "strided_array_view \<Rightarrow> bool" where
  "strided_empty v \<longleftrightarrow> strided_size_bytes v = 0"

definition offset_bytes :: "strided_array_view \<Rightarrow> size_type" where
  "offset_bytes v = OffsetBytes v"

definition stride_bytes :: "strided_array_view \<Rightarrow> size_type" where
  "stride_bytes v = StrideBytes v"

text \<open>\<open>size()\<close>: the division is undefined for a zero stride.\<close>

definition strided_size :: "strided_array_view \<Rightarrow> size_type result" where
  "strided_size v =
     (if stride_bytes v = 0 then Inl UndefinedBehaviour
      else Inr (strided_size_bytes v div stride_bytes v))"

definition get_item_raw_ptr :: "strided_array_view \<Rightarrow> size_type \<Rightarrow> pointer" where
  "get_item_raw_ptr v index =
     ptr_add (ptr_add (m_byte_pointer v) (index * stride_bytes v)) (offset_bytes v)"

text \<open>\<open>at(index)\<close>: no part of it depends on the switch.\<close>

definition strided_at :: "'a memory \<Rightarrow> strided_array_view \<Rightarrow> size_type \<Rightarrow> 'a result" where
  "strided_at mem v index =
     (if strided_data v = None then Inl NullAccess
      else case strided_size v of
        Inl e \<Rightarrow> Inl e
      | Inr n \<Rightarrow>
          if index \<ge> n then Inl OutOfBounds
          else load mem (get_item_raw_ptr v index))"

text \<open>\<open>operator[](index)\<close>.\<close>

definition strided_index :: "bool \<Rightarrow> 'a memory \<Rightarrow> strided_array_view \<Rightarrow> size_type \<Rightarrow> 'a result" where
  "strided_index dbg mem v index =
     (if dbg then
        (if strided_data v = None then Inl NullAccess
         else case strided_size v of
           Inl e \<Rightarrow> Inl e
         | Inr n \<Rightarrow>
             if index \<ge> n then Inl OutOfBounds
             else load mem (get_item_raw_ptr v index))
      else load mem (get_item_raw_ptr v index))"

definition strided_front :: "bool \<Rightarrow> 'a memory \<Rightarrow> strided_array_view \<Rightarrow> 'a result" where
  "strided_front dbg mem v = strided_index dbg mem v 0"

definition strided_back :: "bool \<Rightarrow> 'a memory \<Rightarrow> strided_array_view \<Rightarrow> 'a result" where
  "strided_back dbg mem v =
     (case strided_size v of
        Inl e \<Rightarrow> Inl e
      | Inr n \<Rightarrow> strided_index dbg mem v (n - 1))"

section \<open>\<open>array_iterator_base\<close>\<close>

text \<open>
  \<open>m_parent_array\<close> is the address of the parent \<open>array_view\<close> object. The view store
  maps the address of every live \<open>array_view\<close> object to its value; following a parent
  pointer that is not in the store is undefined.
\<close>

record array_iterator_base =
  m_parent_array :: pointer
  m_current_index :: difference_type

type_synonym view_store = "address \<Rightarrow> array_view option"

definition iterator_default :: array_iterator_base where
  "iterator_default = \<lparr>m_parent_array = None, m_current_index = 0\<rparr>"

definition iterator_of :: "pointer \<Rightarrow> difference_type \<Rightarrow> array_iterator_base" where
  "iterator_of parent index = \<lparr>m_parent_array = parent, m_current_index = index\<rparr>"

text \<open>A block between \<open>#if ARRAY_VIEW_DEBUG_CHECKS\<close> and \<open>#endif\<close>.\<close>

definition debug_check :: "bool \<Rightarrow> unit result \<Rightarrow> unit result" where
  "debug_check dbg c = (if dbg then c else Inr ())"

text \<open>\<open>+\<close> and \<open>-\<close> on \<open>std::ptrdiff_t\<close>: signed overflow is undefined.\<close>

definition signed_add :: "difference_type \<Rightarrow> difference_type \<Rightarrow> difference_type result" where
  "signed_add a b =
     (if - (2 ^ 63) \<le> sint a + sint b \<and> sint a + sint b < 2 ^ 63 then Inr (a + b)
      else Inl UndefinedBehaviour)"

definition signed_sub :: "difference_type \<Rightarrow> difference_type \<Rightarrow> difference_type result" where
  "signed_sub a b =
     (if - (2 ^ 63) \<le> sint a - sint b \<and> sint a - sint b < 2 ^ 63 then Inr (a - b)
      else Inl UndefinedBehaviour)"

definition check_same_parent :: "array_iterator_base \<Rightarrow> array_iterator_base \<Rightarrow> unit result" where
  "check_same_parent it other =
     (if m_parent_array it \<noteq> m_parent_array other then Inl CrossViewOperation else Inr ())"

definition increment :: "bool \<Rightarrow> array_iterator_base \<Rightarrow> difference_type \<Rightarrow> array_iterator_base result" where
  "increment dbg it displacement =
     (case debug_check dbg (if m_parent_array it = None then Inl InvalidIterator else Inr ()) of
        Inl e \<Rightarrow> Inl e
      | Inr _ \<Rightarrow>
          (case signed_add (m_current_index it) displacement of
             Inl e \<Rightarrow> Inl e
           | Inr i \<Rightarrow> Inr (it\<lparr>m_current_index := i\<rparr>)))"

definition decrement :: "bool \<Rightarrow> array_iterator_base \<Rightarrow> difference_type \<Rightarrow> array_iterator_base result" where
  "decrement dbg it displacement =
     (case debug_check dbg (if m_parent_array it = None then Inl InvalidIterator else Inr ()) of
        Inl e \<Rightarrow> Inl e
      | Inr _ \<Rightarrow>
          (case signed_sub (m_current_index it) displacement of
             Inl e \<Rightarrow> Inl e
           | Inr i \<Rightarrow> Inr (it\<lparr>m_current_index := i\<rparr>)))"

text \<open>\<open>operator - (const array_iterator_base & other)\<close>.\<close>

definition iterator_diff :: "bool \<Rightarrow> array_iterator_base \<Rightarrow> array_iterator_base \<Rightarrow> difference_type result" where
  "iterator_diff dbg it other =
     (case debug_check dbg (check_same_parent it other) of
        Inl e \<Rightarrow> Inl e
      | Inr _ \<Rightarrow> signed_sub (m_current_index it) (m_current_index other))"

text \<open>\<open>operator + (displacement)\<close>, \<open>operator - (displacement)\<close> and \<open>operator++()\<close>.\<close>

definition iterator_plus :: "bool \<Rightarrow> array_iterator_base \<Rightarrow> difference_type \<Rightarrow> array_iterator_base result" where
  "iterator_plus dbg it displacement = increment dbg it displacement"

definition iterator_minus :: "bool \<Rightarrow> array_iterator_base \<Rightarrow> difference_type \<Rightarrow> array_iterator_base result" where
  "iterator_minus dbg it displacement = decrement dbg it displacement"


definition is_dereferenceable :: "view_store \<Rightarrow> array_iterator_base \<Rightarrow> bool result" where
  "is_dereferenceable views it =
     (case m_parent_array it of
        None \<Rightarrow> Inr False
      | Some a \<Rightarrow>
          if \<not> 0 \<le> sint (m_current_index it) then Inr False
          else (case views a of
                  None \<Rightarrow> Inl UndefinedBehaviour
                | Some v \<Rightarrow> Inr (m_current_index it < array_view_size v)))"

text \<open>\<open>if (!is_dereferenceable()) { ARRAY_VIEW_ERROR(...); }\<close>.\<close>

definition require_dereferenceable :: "view_store \<Rightarrow> array_iterator_base \<Rightarrow> unit result" where
  "require_dereferenceable views it =
     (case is_dereferenceable views it of
        Inl e \<Rightarrow> Inl e
      | Inr ok \<Rightarrow> if \<not> ok then Inl NotDereferenceable else Inr ())"

text \<open>\<open>(*m_parent_array)[index]\<close>.\<close>

definition parent_index :: "bool \<Rightarrow> view_store \<Rightarrow> 'a memory \<Rightarrow> array_iterator_base \<Rightarrow> size_type \<Rightarrow> 'a result" where
  "parent_index dbg views mem it index =
     (case m_parent_array it of
        None \<Rightarrow> Inl UndefinedBehaviour
      | Some a \<Rightarrow>
          (case views a of
             None \<Rightarrow> Inl UndefinedBehaviour
           | Some v \<Rightarrow> array_view_index dbg mem v index))"

text \<open>\<open>operator*()\<close> and \<open>operator->()\<close>.\<close>

definition iterator_deref :: "bool \<Rightarrow> view_store \<Rightarrow> 'a memory \<Rightarrow> array_iterator_base \<Rightarrow> 'a result" where
  "iterator_deref dbg views mem it =
     (case debug_check dbg (require_dereferenceable views it) of
        Inl e \<Rightarrow> Inl e
      | Inr _ \<Rightarrow> parent_index dbg views mem it (m_current_index it))"

definition iterator_arrow :: "bool \<Rightarrow> view_store \<Rightarrow> 'a memory \<Rightarrow> array_iterator_base \<Rightarrow> 'a result" where
  "iterator_arrow dbg views mem it =
     (case debug_check dbg (require_dereferenceable views it) of
        Inl e \<Rightarrow> Inl e
      | Inr _ \<Rightarrow> parent_index dbg views mem it (m_current_index it))"

text \<open>\<open>operator[](index)\<close> of the iterator.\<close>

definition iterator_index :: "bool \<Rightarrow> view_store \<Rightarrow> 'a memory \<Rightarrow> array_iterator_base \<Rightarrow> size_type \<Rightarrow> 'a result" where
  "iterator_index dbg views mem it index =
     (case debug_check dbg (require_dereferenceable views it) of
        Inl e \<Rightarrow> Inl e
      | Inr _ \<Rightarrow>
          (let array_index = m_current_index it + index in
           case debug_check dbg
                  (case m_parent_array it of
                     None \<Rightarrow> Inl UndefinedBehaviour
                   | Some a \<Rightarrow>
                       (case views a of
                          None \<Rightarrow> Inl UndefinedBehaviour
                        | Some v \<Rightarrow>
                            if array_index \<ge> array_view_size v then Inl OutOfBounds else Inr ()))
           of
             Inl e \<Rightarrow> Inl e
           | Inr _ \<Rightarrow> parent_index dbg views mem it array_index))"

text \<open>\<open>operator == (std::nullptr_t)\<close>.\<close>

definition iterator_is_null :: "array_iterator_base \<Rightarrow> bool" where
  "iterator_is_null it \<longleftrightarrow> m_parent_array it = None"

text \<open>The six comparisons of two iterators.\<close>

definition iterator_eq :: "bool \<Rightarrow> array_iterator_base \<Rightarrow> array_iterator_base \<Rightarrow> bool result" where
  "iterator_eq dbg it other =
     (case debug_check dbg (check_same_parent it other) of
        Inl e \<Rightarrow> Inl e
      | Inr _ \<Rightarrow> Inr (m_current_index it = m_current_index other))"

definition iterator_ne :: "bool \<Rightarrow> array_iterator_base \<Rightarrow> array_iterator_base \<Rightarrow> bool result" where
  "iterator_ne dbg it other =
     (case iterator_eq dbg it other of Inl e \<Rightarrow> Inl e | Inr b \<Rightarrow> Inr (\<not> b))"

definition iterator_less :: "bool \<Rightarrow> array_iterator_base \<Rightarrow> array_iterator_base \<Rightarrow> bool result" where
  "iterator_less dbg it other =
     (case debug_check dbg (check_same_parent it other) of
        Inl e \<Rightarrow> Inl e
      | Inr _ \<Rightarrow> Inr (sint (m_current_index it) < sint (m_current_index other)))"

definition iterator_greater :: "bool \<Rightarrow> array_iterator_base \<Rightarrow> array_iterator_base \<Rightarrow> bool result" where
  "iterator_greater dbg it other =
     (case debug_check dbg (check_same_parent it other) of
        Inl e \<Rightarrow> Inl e
      | Inr _ \<Rightarrow> Inr (sint (m_current_index it) > sint (m_current_index other)))"

definition iterator_less_eq :: "bool \<Rightarrow> array_iterator_base \<Rightarrow> array_iterator_base \<Rightarrow> bool result" where
  "iterator_less_eq dbg it other =
     (case iterator_greater dbg it other of Inl e \<Rightarrow> Inl e | Inr b \<Rightarrow> Inr (\<not> b))"

definition iterator_greater_eq :: "bool \<Rightarrow> array_iterator_base \<Rightarrow> array_iterator_base \<Rightarrow> bool result" where
  "iterator_greater_eq dbg it other =
     (case iterator_less dbg it other of Inl e \<Rightarrow> Inl e | Inr b \<Rightarrow> Inr (\<not> b))"

text \<open>
  \<open>swap(lhs, rhs)\<close>: the new \<open>lhs\<close> and the new \<open>rhs\<close>. It has no debug block and no
  call of \<open>ARRAY_VIEW_ERROR\<close>, so the result is never \<open>Inl\<close>.
\<close>

definition iterator_swap ::
  "array_iterator_base \<Rightarrow> array_iterator_base \<Rightarrow> (array_iterator_base \<times> array_iterator_base) result" where
  "iterator_swap lhs rhs =
     Inr (lhs\<lparr>m_parent_array := m_parent_array rhs, m_current_index := m_current_index rhs\<rparr>,
          rhs\<lparr>m_parent_array := m_parent_array lhs, m_current_index := m_current_index lhs\<rparr>)"

section \<open>Iterators of a view and equality of views\<close>

text \<open>
  \<open>make_iterator\<close>, \<open>begin\<close> and \<open>end\<close> take the address \<open>this\<close> of the view object next
  to its value. \<open>end\<close> passes \<open>size()\<close>, a \<open>size_type\<close>, as a \<open>difference_type\<close>.
\<close>

definition make_iterator :: "address \<Rightarrow> array_view \<Rightarrow> difference_type \<Rightarrow> array_iterator_base" where
  "make_iterator this v start_offset =
     (if array_view_data v \<noteq> None then iterator_of (Some this) start_offset
      else iterator_default)"

definition array_view_begin :: "address \<Rightarrow> array_view \<Rightarrow> array_iterator_base" where
  "array_view_begin this v = make_iterator this v 0"

definition array_view_end :: "address \<Rightarrow> array_view \<Rightarrow> array_iterator_base" where
  "array_view_end this v = make_iterator this v (array_view_size v)"






section \<open>Example objects\<close>

text \<open>
  The array \<open>{0, 10, 20, 30, 40, 50}\<close> of integers at address 100 and a copy of its
  first three elements at address 200. The view objects: at address 1 a view of the
  whole array, at address 2 a view of its first three elements, at address 3 a default
  (null) view, at address 4 a view of its last three elements, at address 5 a view of
  the copy, at address 6 the view built from an absent pointer and the count 3.
\<close>

definition example_mem :: "int memory" where
  "example_mem =
     [100 \<mapsto> 0, 101 \<mapsto> 10, 102 \<mapsto> 20, 103 \<mapsto> 30, 104 \<mapsto> 40, 105 \<mapsto> 50,
      200 \<mapsto> 0, 201 \<mapsto> 10, 202 \<mapsto> 20]"

definition example_view :: array_view where
  "example_view = array_view_of (Some 100) 6"

definition example_prefix :: array_view where
  "example_prefix = array_view_of (Some 100) 3"

definition example_suffix :: array_view where
  "example_suffix = array_view_of (Some 103) 3"

definition example_copy :: array_view where
  "example_copy = array_view_of (Some 200) 3"

definition example_null_sized :: array_view where
  "example_null_sized = array_view_of None 3"

definition example_views :: view_store where
  "example_views =
     [1 \<mapsto> example_view, 2 \<mapsto> example_prefix, 3 \<mapsto> array_view_default,
      4 \<mapsto> example_suffix, 5 \<mapsto> example_copy, 6 \<mapsto> example_null_sized]"

text \<open>
  Four structures \<open>{x: int32, y: int32}\<close> at byte address 1000, the field \<open>y\<close> at byte
  offset 4 of each: the memory gives the integer object that starts at a byte.
\<close>

definition example_fields :: "int memory" where
  "example_fields =
     [1000 \<mapsto> 1, 1004 \<mapsto> 11, 1008 \<mapsto> 2, 1012 \<mapsto> 12,
      1016 \<mapsto> 3, 1020 \<mapsto> 13, 1024 \<mapsto> 4, 1028 \<mapsto> 14]"

definition example_strided :: strided_array_view where
  "example_strided = strided_array_view_of 4 8 8 (Some 1000) 4"

section \<open>Slicing and checked access\<close>

text \<open>
  C1. For every view, every offset and either value of the debug switch,
  \<open>slice(offset, 0)\<close> returns the default (null, empty) view and raises no error, also
  when the offset is not below the size of the view.
\<close>

theorem slice_count_zero:
  "slice_count dbg v offset_in_items 0 = Inr array_view_default"
  by (simp add: slice_count_def)

text \<open>
  C5. \<open>at(i)\<close> has no debug block, so in every build configuration: on a view that is
  null or empty it fails with \<open>NullAccess\<close>; on any other view it fails with
  \<open>OutOfBounds\<close> when \<open>i\<close> is not below the size; otherwise it returns the element
  stored at the base address plus \<open>i\<close>.
\<close>

theorem array_view_at_checked:
  "(m_pointer v = None \<or> m_size_in_items v = 0 \<longrightarrow> array_view_at mem v i = Inl NullAccess) \<and>
   (m_pointer v \<noteq> None \<and> m_size_in_items v \<noteq> 0 \<and> m_size_in_items v \<le> i
      \<longrightarrow> array_view_at mem v i = Inl OutOfBounds) \<and>
   (\<forall>p. m_pointer v = Some p \<and> i < m_size_in_items v
      \<longrightarrow> array_view_at mem v i = load mem (Some (p + unat i))) \<and>
   (\<forall>p x. m_pointer v = Some p \<and> i < m_size_in_items v \<and> mem (p + unat i) = Some x
      \<longrightarrow> array_view_at mem v i = Inr x)"
  by (auto simp: array_view_at_def check_not_null_def array_view_data_def array_view_empty_def
      array_view_size_def ptr_add_def load_def)

theorem array_view_at_checked_witness:
  "(m_pointer array_view_default = None \<and>
      array_view_at example_mem array_view_default 0 = Inl NullAccess) \<and>
   (m_size_in_items (array_view_of (Some 100) 0) = 0 \<and>
      array_view_at example_mem (array_view_of (Some 100) 0) 0 = Inl NullAccess) \<and>
   (m_pointer example_view \<noteq> None \<and> m_size_in_items example_view \<noteq> 0 \<and>
      m_size_in_items example_view \<le> 6 \<and>
      array_view_at example_mem example_view 6 = Inl OutOfBounds) \<and>
   (m_pointer example_view = Some 100 \<and> 2 < m_size_in_items example_view \<and>
      example_mem (100 + unat (2 :: size_type)) = Some 20 \<and>
      array_view_at example_mem example_view 2 = Inr 20)"
  using array_view_at_checked [of array_view_default example_mem 0]
    array_view_at_checked [of "array_view_of (Some 100) 0" example_mem 0]
    array_view_at_checked [of example_view example_mem 6]
    array_view_at_checked [of example_view example_mem 2]
  by (simp add: array_view_default_def array_view_of_def example_view_def example_mem_def load_def)

section \<open>The strided view\<close>

lemma word_div_small: "(a :: 'a::len word) < b \<Longrightarrow> a div b = 0"
  by (simp add: word_less_nat_alt word_eq_iff_unsigned [where ?'a = nat] unat_div)

text \<open>
  C10. A strided view whose byte size is not zero but below its stride is not \<open>empty()\<close>
  and has \<open>size()\<close> zero: \<open>empty()\<close> tests the byte count, \<open>size()\<close> divides it by
  the stride.
\<close>

theorem strided_empty_not_size_zero:
  "0 < strided_size_bytes v \<Longrightarrow> strided_size_bytes v < stride_bytes v \<Longrightarrow>
   \<not> strided_empty v \<and> strided_size v = Inr 0"
  by (auto simp: strided_empty_def strided_size_def word_div_small)

theorem strided_empty_not_size_zero_witness:
  "0 < strided_size_bytes (strided_array_view_of 0 8 4 (Some 1000) 1) \<and>
   strided_size_bytes (strided_array_view_of 0 8 4 (Some 1000) 1)
     < stride_bytes (strided_array_view_of 0 8 4 (Some 1000) 1) \<and>
   \<not> strided_empty (strided_array_view_of 0 8 4 (Some 1000) 1) \<and>
   strided_size (strided_array_view_of 0 8 4 (Some 1000) 1) = Inr 0"
proof -
  have pos: "0 < strided_size_bytes (strided_array_view_of 0 8 4 (Some 1000) 1)"
    by (simp add: strided_size_bytes_def strided_array_view_of_def)
  have small: "strided_size_bytes (strided_array_view_of 0 8 4 (Some 1000) 1)
     < stride_bytes (strided_array_view_of 0 8 4 (Some 1000) 1)"
    by (simp add: strided_size_bytes_def stride_bytes_def strided_array_view_of_def)
  from strided_empty_not_size_zero [OF pos small] pos small show ?thesis by simp
qed

lemma word_le_pred_iff: "(n :: 'a::len word) \<le> n - 1 \<longleftrightarrow> n = 0"
proof
  assume le: "n \<le> n - 1"
  show "n = 0"
  proof (rule ccontr)
    assume "n \<noteq> 0"
    then have "unat (n - 1) < unat n" by (rule measure_unat)
    with le show False by (simp add: word_le_nat_alt)
  qed
next
  assume "n = 0"
  then show "n \<le> n - 1" by simp
qed

text \<open>
  C3. \<open>at\<close> validates in every build configuration: \<open>NullAccess\<close> on a null
  view, \<open>OutOfBounds\<close> when the index is not below \<open>size()\<close>. \<open>front()\<close> and
  \<open>back()\<close> call \<open>operator[]\<close>, whose checks are inside a debug block: with the
  switch on they validate in the same way, with the switch off they read the item at
  the raw pointer of index \<open>0\<close> and \<open>size() - 1\<close> with no validation, as
  \<open>operator[]\<close> does.
\<close>

theorem strided_front_back_checked_in_debug_only:
  "strided_size v = Inr n \<Longrightarrow>
   strided_at mem v i =
     (if strided_data v = None then Inl NullAccess
      else if n \<le> i then Inl OutOfBounds
      else load mem (get_item_raw_ptr v i)) \<and>
   strided_front True mem v =
     (if strided_data v = None then Inl NullAccess
      else if n = 0 then Inl OutOfBounds
      else load mem (get_item_raw_ptr v 0)) \<and>
   strided_back True mem v =
     (if strided_data v = None then Inl NullAccess
      else if n = 0 then Inl OutOfBounds
      else load mem (get_item_raw_ptr v (n - 1))) \<and>
   strided_index False mem v i = load mem (get_item_raw_ptr v i) \<and>
   strided_front False mem v = load mem (get_item_raw_ptr v 0) \<and>
   strided_back False mem v = load mem (get_item_raw_ptr v (n - 1))"
  by (simp add: strided_at_def strided_front_def strided_back_def strided_index_def
      word_le_pred_iff)

theorem strided_front_back_checked_in_debug_only_witness:
  "strided_size example_strided = Inr 4 \<and>
   strided_at example_fields example_strided 4 = Inl OutOfBounds \<and>
   strided_at example_fields example_strided 2 = Inr 13 \<and>
   strided_front True example_fields example_strided = Inr 11 \<and>
   strided_back True example_fields example_strided = Inr 14 \<and>
   strided_front False example_fields example_strided = Inr 11 \<and>
   strided_back False example_fields example_strided = Inr 14"
proof -
  have n: "strided_size example_strided = Inr 4"
    by (simp add: strided_size_def stride_bytes_def strided_size_bytes_def
        example_strided_def strided_array_view_of_def)
  have raw: "get_item_raw_ptr example_strided 0 = Some 1004"
    "get_item_raw_ptr example_strided 2 = Some 1020"
    "get_item_raw_ptr example_strided 3 = Some 1028"
    by (simp_all add: get_item_raw_ptr_def ptr_add_def stride_bytes_def offset_bytes_def
        example_strided_def strided_array_view_of_def)
  have data: "strided_data example_strided = Some 1000"
    by (simp add: strided_data_def example_strided_def strided_array_view_of_def)
  from strided_front_back_checked_in_debug_only [OF n, of example_fields 4]
    strided_front_back_checked_in_debug_only [OF n, of example_fields 2]
  show ?thesis
    by (simp add: n raw data load_def example_fields_def)
qed

text \<open>
  With the switch off, \<open>front()\<close> of a view of zero bytes over the example structures
  returns the field of the first structure, and \<open>front()\<close> of the default (null) view
  does not fail with \<open>NullAccess\<close>.
\<close>

theorem strided_front_unchecked_counterexample:
  "strided_size (strided_array_view_of 4 8 8 (Some 1000) 0) = Inr 0 \<and>
   strided_front False example_fields (strided_array_view_of 4 8 8 (Some 1000) 0) = Inr 11 \<and>
   strided_data (strided_array_view_of 4 8 8 None 0) = None \<and>
   strided_front False example_fields (strided_array_view_of 4 8 8 None 0) \<noteq> Inl NullAccess"
  by (simp add: strided_size_def stride_bytes_def strided_size_bytes_def strided_data_def
      strided_array_view_of_def strided_front_def strided_index_def get_item_raw_ptr_def
      ptr_add_def offset_bytes_def load_def example_fields_def)

section \<open>The bound iterator\<close>

text \<open>
  C2. Dereference and arrow access check that the iterator has a parent and
  that its index lies in \<open>[0, parent.size())\<close> inside a debug block: with the switch on,
  an iterator without parent, with a negative index or with an index not below the size
  of its parent fails with \<open>NotDereferenceable\<close>; with the switch off nothing is
  checked, and the access is the unchecked \<open>operator[]\<close> of the parent, the read at the
  parent's pointer plus the index.
\<close>

theorem iterator_deref_checked_in_debug_only:
  "(m_parent_array it = None \<longrightarrow>
      iterator_deref True views mem it = Inl NotDereferenceable \<and>
      iterator_arrow True views mem it = Inl NotDereferenceable) \<and>
   (\<forall>a v. m_parent_array it = Some a \<and> views a = Some v \<and>
        (sint (m_current_index it) < 0 \<or> array_view_size v \<le> m_current_index it) \<longrightarrow>
      iterator_deref True views mem it = Inl NotDereferenceable \<and>
      iterator_arrow True views mem it = Inl NotDereferenceable) \<and>
   (\<forall>a v. m_parent_array it = Some a \<and> views a = Some v \<and>
        0 \<le> sint (m_current_index it) \<and> m_current_index it < array_view_size v \<longrightarrow>
      iterator_deref True views mem it = array_view_index True mem v (m_current_index it) \<and>
      iterator_arrow True views mem it = array_view_index True mem v (m_current_index it)) \<and>
   (\<forall>a v. m_parent_array it = Some a \<and> views a = Some v \<longrightarrow>
      iterator_deref False views mem it = load mem (ptr_add (m_pointer v) (m_current_index it)) \<and>
      iterator_arrow False views mem it = load mem (ptr_add (m_pointer v) (m_current_index it)))"
  by (auto simp: iterator_deref_def iterator_arrow_def debug_check_def
      require_dereferenceable_def is_dereferenceable_def parent_index_def
      array_view_index_def array_view_data_def)

theorem iterator_deref_checked_in_debug_only_witness:
  "(m_parent_array iterator_default = None \<and>
      iterator_deref True example_views example_mem iterator_default = Inl NotDereferenceable) \<and>
   (m_parent_array (iterator_of (Some 2) 4) = Some 2 \<and> example_views 2 = Some example_prefix \<and>
      array_view_size example_prefix \<le> m_current_index (iterator_of (Some 2) 4) \<and>
      iterator_deref True example_views example_mem (iterator_of (Some 2) 4)
        = Inl NotDereferenceable \<and>
      iterator_deref False example_views example_mem (iterator_of (Some 2) 4) = Inr 40)"
  using iterator_deref_checked_in_debug_only [of iterator_default example_views example_mem]
    iterator_deref_checked_in_debug_only [of "iterator_of (Some 2) 4" example_views example_mem]
  by (simp add: iterator_default_def iterator_of_def example_views_def example_prefix_def
      example_view_def array_view_of_def array_view_size_def load_def ptr_add_def
      example_mem_def)

text \<open>
  With the switch off, the iterator at index 4 of the view of the first three elements
  of the example array is not dereferenceable, and its dereference returns the fifth
  element of the array.
\<close>

theorem iterator_deref_unchecked_counterexample:
  "is_dereferenceable example_views (iterator_of (Some 2) 4) = Inr False \<and>
   iterator_deref False example_views example_mem (iterator_of (Some 2) 4) = Inr 40 \<and>
   iterator_arrow False example_views example_mem (iterator_of (Some 2) 4) = Inr 40"
  by (simp add: is_dereferenceable_def iterator_deref_def iterator_arrow_def debug_check_def
      parent_index_def array_view_index_def array_view_data_def array_view_size_def
      iterator_of_def example_views_def example_prefix_def example_view_def
      array_view_of_def load_def ptr_add_def example_mem_def)

text \<open>
  C6. With the debug switch on, each of the six comparisons and the
  difference of two iterators whose parents differ fails with \<open>CrossViewOperation\<close>.
  \<open>swap\<close> of two iterators has no such check in any build: it exchanges parent and
  index of the two and does not fail.
\<close>

theorem cross_view_compare_and_diff_fail:
  "m_parent_array it \<noteq> m_parent_array other \<Longrightarrow>
   iterator_eq True it other = Inl CrossViewOperation \<and>
   iterator_ne True it other = Inl CrossViewOperation \<and>
   iterator_less True it other = Inl CrossViewOperation \<and>
   iterator_greater True it other = Inl CrossViewOperation \<and>
   iterator_less_eq True it other = Inl CrossViewOperation \<and>
   iterator_greater_eq True it other = Inl CrossViewOperation \<and>
   iterator_diff True it other = Inl CrossViewOperation \<and>
   iterator_swap it other = Inr (other, it)"
  by (simp add: iterator_eq_def iterator_ne_def iterator_less_def iterator_greater_def
      iterator_less_eq_def iterator_greater_eq_def iterator_diff_def iterator_swap_def
      debug_check_def check_same_parent_def)

theorem cross_view_compare_and_diff_fail_witness:
  "m_parent_array (array_view_begin 1 example_view) \<noteq> m_parent_array (array_view_end 2 example_prefix) \<and>
   iterator_eq True (array_view_begin 1 example_view) (array_view_end 2 example_prefix)
     = Inl CrossViewOperation \<and>
   iterator_diff True (array_view_begin 1 example_view) (array_view_end 2 example_prefix)
     = Inl CrossViewOperation"
proof -
  have ne: "m_parent_array (array_view_begin 1 example_view)
      \<noteq> m_parent_array (array_view_end 2 example_prefix)"
    by (simp add: array_view_begin_def array_view_end_def make_iterator_def iterator_of_def
        array_view_data_def example_view_def example_prefix_def array_view_of_def)
  from cross_view_compare_and_diff_fail [OF ne] ne show ?thesis by simp
qed

text \<open>
  \<open>swap\<close> of the begin iterator of one example view and the end iterator of another:
  the parents differ, and the result is the exchanged pair, not an error.
\<close>

theorem iterator_swap_counterexample:
  "m_parent_array (array_view_begin 1 example_view) = Some 1 \<and>
   m_parent_array (array_view_end 2 example_prefix) = Some 2 \<and>
   iterator_swap (array_view_begin 1 example_view) (array_view_end 2 example_prefix)
     = Inr (array_view_end 2 example_prefix, array_view_begin 1 example_view) \<and>
   iterator_swap (array_view_begin 1 example_view) (array_view_end 2 example_prefix)
     \<noteq> Inl CrossViewOperation"
  by (simp add: iterator_swap_def array_view_begin_def array_view_end_def make_iterator_def
      iterator_of_def array_view_data_def example_view_def example_prefix_def array_view_of_def)

text \<open>
  C7. For a view whose pointer is present, in either build configuration and
  for every displacement \<open>k\<close>: \<open>(begin() + k) - begin()\<close> is \<open>k\<close>, and
  \<open>begin() + size()\<close> is \<open>end()\<close> and compares equal to it. For a view whose pointer is
  absent \<open>begin()\<close> is the null iterator: with the debug switch on \<open>begin() + k\<close> fails
  with \<open>InvalidIterator\<close>; with the switch off the first law holds as well, and the
  second when the size is zero.
\<close>

theorem iterator_begin_plus_laws:
  "(m_pointer v \<noteq> None \<or> \<not> dbg \<longrightarrow>
      (\<exists>it. iterator_plus dbg (array_view_begin this v) k = Inr it \<and>
            iterator_diff dbg it (array_view_begin this v) = Inr k)) \<and>
   (m_pointer v \<noteq> None \<or> \<not> dbg \<and> array_view_size v = 0 \<longrightarrow>
      (\<exists>it. iterator_plus dbg (array_view_begin this v) (array_view_size v) = Inr it \<and>
            it = array_view_end this v \<and>
            iterator_eq dbg it (array_view_end this v) = Inr True)) \<and>
   (m_pointer v = None \<and> dbg \<longrightarrow>
      iterator_plus dbg (array_view_begin this v) k = Inl InvalidIterator)"
proof -
  have range: "- (2 ^ 63) \<le> sint w \<and> sint w < 2 ^ 63" for w :: difference_type
    using sint_ge [of w] sint_lt [of w] by simp
  have add0: "signed_add 0 w = Inr w" for w :: difference_type
    using range [of w] by (simp add: signed_add_def)
  have sub0: "signed_sub w 0 = Inr w" for w :: difference_type
    using range [of w] by (simp add: signed_sub_def)
  show ?thesis
    by (auto simp: iterator_plus_def iterator_diff_def iterator_eq_def increment_def
        array_view_begin_def array_view_end_def make_iterator_def iterator_of_def
        iterator_default_def array_view_data_def debug_check_def check_same_parent_def
        add0 sub0)
qed

theorem iterator_begin_plus_laws_witness:
  "m_pointer example_view \<noteq> None \<and>
   iterator_plus True (array_view_begin 1 example_view) 6 = Inr (array_view_end 1 example_view) \<and>
   (\<exists>it. iterator_plus True (array_view_begin 1 example_view) (- 2) = Inr it \<and>
         iterator_diff True it (array_view_begin 1 example_view) = Inr (- 2)) \<and>
   m_pointer array_view_default = None \<and>
   iterator_plus True (array_view_begin 3 array_view_default) 0 = Inl InvalidIterator"
  using iterator_begin_plus_laws [of example_view True 1 "- 2"]
    iterator_begin_plus_laws [of array_view_default True 3 0]
  by (simp add: example_view_def array_view_of_def array_view_default_def array_view_size_def)

text \<open>
  With the debug switch on, \<open>begin() + 0\<close> on the default (null) view fails.
\<close>

theorem iterator_begin_plus_counterexample:
  "iterator_plus True (array_view_begin 3 array_view_default) 0 = Inl InvalidIterator \<and>
   iterator_plus True (array_view_begin 3 array_view_default)
     (array_view_size array_view_default) \<noteq> Inr (array_view_end 3 array_view_default)"
  by (simp add: iterator_plus_def increment_def debug_check_def array_view_begin_def
      make_iterator_def array_view_data_def array_view_default_def iterator_default_def)

section \<open>Slices and the null view\<close>

lemma slice_count_present:
  assumes ptr: "m_pointer v \<noteq> None"
    and off: "offs < array_view_size v"
    and cnt: "unat offs + unat c \<le> unat (array_view_size v)"
  shows "\<exists>s. slice_count dbg v offs c = Inr s \<and> array_view_size s = c \<and>
             (\<forall>i. i < c \<longrightarrow> array_view_at mem s i = array_view_at mem v (offs + i))"
proof (cases "c = 0")
  case True
  then show ?thesis
    by (simp add: slice_count_def array_view_default_def array_view_size_def)
next
  case False
  from ptr obtain p where p: "m_pointer v = Some p" by auto
  from off have nonempty: "array_view_size v \<noteq> 0"
    by (auto simp: word_less_nat_alt)
  have bound: "unat offs + unat c < 2 ^ LENGTH(64)"
    using cnt unsigned_less [of "array_view_size v", where ?'a = nat]
    by (simp del: unsigned_less)
  then have sum: "unat (offs + c) = unat offs + unat c"
    by (simp only: unat_add_lem [THEN iffD1])
  have fits: "\<not> offs + c > array_view_size v"
    using cnt sum by (simp add: word_less_nat_alt)
  have sl: "slice_count dbg v offs c = Inr (array_view_of (Some (p + unat offs)) c)"
    using False nonempty off fits p
    by (auto simp: slice_count_def array_view_data_def array_view_empty_def ptr_add_def)
  have elems: "array_view_at mem (array_view_of (Some (p + unat offs)) c) i
      = array_view_at mem v (offs + i)" if i: "i < c" for i
  proof -
    from i have lt: "unat i < unat c" by (simp add: word_less_nat_alt)
    with bound have "unat offs + unat i < 2 ^ LENGTH(64)" by simp
    then have s: "unat (offs + i) = unat offs + unat i"
      by (simp only: unat_add_lem [THEN iffD1])
    with lt cnt have inb: "offs + i < array_view_size v"
      by (simp add: word_less_nat_alt)
    from i have "\<not> c \<le> i" by simp
    moreover from inb have "\<not> array_view_size v \<le> offs + i" by simp
    ultimately show ?thesis
      using False nonempty p s
      by (simp add: array_view_at_def check_not_null_def array_view_data_def
          array_view_empty_def array_view_size_def array_view_of_def ptr_add_def add.assoc)
  qed
  from sl elems show ?thesis
    by (simp add: array_view_size_def array_view_of_def)
qed

text \<open>
  C8. For a view whose pointer is present, an offset \<open>o\<close> below its size and
  a count \<open>c\<close> with \<open>o + c\<close> at most its size (the sum of the two numbers, which then
  does not wrap around), in either build configuration: \<open>slice(o, c)\<close> returns a view
  of size \<open>c\<close>, and for every \<open>i\<close> below \<open>c\<close> the result of \<open>at(i)\<close> on the slice is
  the result of \<open>at(o + i)\<close> on the view. For a view whose pointer is absent,
  \<open>slice(o, c)\<close> returns the default (null, empty) view, whatever \<open>o\<close> and \<open>c\<close> are.
\<close>

theorem slice_count_at:
  "(m_pointer v \<noteq> None \<and> offs < array_view_size v \<and>
    unat offs + unat c \<le> unat (array_view_size v) \<longrightarrow>
      (\<exists>s. slice_count dbg v offs c = Inr s \<and> array_view_size s = c \<and>
           (\<forall>i. i < c \<longrightarrow> array_view_at mem s i = array_view_at mem v (offs + i)))) \<and>
   (m_pointer v = None \<longrightarrow> slice_count dbg v offs c = Inr array_view_default)"
proof (intro conjI impI)
  assume "m_pointer v \<noteq> None \<and> offs < array_view_size v \<and>
    unat offs + unat c \<le> unat (array_view_size v)"
  then show "\<exists>s. slice_count dbg v offs c = Inr s \<and> array_view_size s = c \<and>
      (\<forall>i. i < c \<longrightarrow> array_view_at mem s i = array_view_at mem v (offs + i))"
    by (simp add: slice_count_present)
next
  assume "m_pointer v = None"
  then show "slice_count dbg v offs c = Inr array_view_default"
    by (simp add: slice_count_def array_view_data_def)
qed

theorem slice_count_at_witness:
  "m_pointer example_view \<noteq> None \<and> 2 < array_view_size example_view \<and>
   unat (2 :: size_type) + unat (3 :: size_type) \<le> unat (array_view_size example_view) \<and>
   (\<exists>s. slice_count True example_view 2 3 = Inr s \<and> array_view_size s = 3 \<and>
        array_view_at example_mem s 0 = array_view_at example_mem example_view 2 \<and>
        array_view_at example_mem s 0 = (Inr 20 :: int result)) \<and>
   m_pointer example_null_sized = None \<and>
   slice_count True example_null_sized 1 2 = Inr array_view_default"
proof -
  have ptr: "m_pointer example_view \<noteq> None"
    by (simp add: example_view_def array_view_of_def)
  have off: "2 < array_view_size example_view"
    by (simp add: example_view_def array_view_of_def array_view_size_def)
  have cnt: "unat (2 :: size_type) + unat (3 :: size_type) \<le> unat (array_view_size example_view)"
    by (simp add: example_view_def array_view_of_def array_view_size_def)
  have null: "m_pointer example_null_sized = None"
    by (simp add: example_null_sized_def array_view_of_def)
  have at2: "array_view_at example_mem example_view (2 + 0) = (Inr 20 :: int result)"
    by (simp add: array_view_at_def check_not_null_def array_view_data_def
        array_view_empty_def array_view_size_def example_view_def array_view_of_def
        ptr_add_def load_def example_mem_def)
  from slice_count_at [where v = example_view and offs = 2 and c = 3 and dbg = True
      and mem = example_mem] ptr off cnt
  obtain s where "slice_count True example_view 2 3 = Inr s" "array_view_size s = 3"
    "array_view_at example_mem s 0 = array_view_at example_mem example_view (2 + 0)"
    by force
  moreover from slice_count_at [where v = example_null_sized and offs = 1 and c = 2
      and dbg = True and mem = example_mem] null
  have "slice_count True example_null_sized 1 2 = Inr array_view_default"
    by simp
  ultimately show ?thesis
    using at2 ptr off cnt null by simp
qed

text \<open>
  The view built from an absent pointer and the count 5, with offset 0 and count 1: the
  slice is the default view, of size 0. And, should \<open>o + c\<close> be read in \<open>size_type\<close>:
  on the example view of 6 elements, with offset 1 and count \<open>2^64 - 1\<close>, all checks
  of \<open>slice\<close> pass, and \<open>at(5)\<close> reads past the array on the slice while \<open>at(6)\<close> fails
  with \<open>OutOfBounds\<close> on the view.
\<close>

theorem slice_count_at_counterexample:
  "0 < array_view_size (array_view_of None 5) \<and>
   unat (0 :: size_type) + unat (1 :: size_type) \<le> unat (array_view_size (array_view_of None 5)) \<and>
   slice_count True (array_view_of None 5) 0 1 = Inr array_view_default \<and>
   slice_count False (array_view_of None 5) 0 1 = Inr array_view_default \<and>
   array_view_size array_view_default \<noteq> 1 \<and>
   1 < array_view_size example_view \<and> 1 + (- 1) \<le> array_view_size example_view \<and>
   slice_count True example_view 1 (- 1) = Inr (array_view_of (Some 101) (- 1)) \<and>
   5 < (- 1 :: size_type) \<and>
   array_view_at example_mem (array_view_of (Some 101) (- 1)) 5 = Inl UndefinedBehaviour \<and>
   array_view_at example_mem example_view (1 + 5) = Inl OutOfBounds"
  by (simp add: slice_count_def array_view_data_def array_view_empty_def array_view_size_def
      array_view_of_def array_view_default_def example_view_def ptr_add_def
      array_view_at_def check_not_null_def load_def example_mem_def
      word_le_nat_alt word_less_nat_alt unsigned_minus_1_eq_mask mask_eq_exp_minus_1)

text \<open>
  C9. Every empty view has \<open>size()\<close> zero. For every view that is null or
  empty, in either build configuration, \<open>begin() == end()\<close> is true and \<open>at\<close> fails with
  \<open>NullAccess\<close>. The default view and a view after \<open>reset()\<close> have no pointer and count
  zero, and so has every result of \<open>slice\<close> that has no pointer. The constructor from a
  pointer and a count keeps the count it is given: built from an absent pointer and a
  count \<open>n\<close>, the view is null and its \<open>size()\<close> is \<open>n\<close>.
\<close>

theorem null_or_empty_view:
  "(array_view_empty v \<longrightarrow> array_view_size v = 0) \<and>
   (array_view_is_null v \<or> array_view_empty v \<longrightarrow>
      iterator_eq dbg (array_view_begin this v) (array_view_end this v) = Inr True \<and>
      array_view_at mem v i = Inl NullAccess) \<and>
   array_view_is_null array_view_default \<and> array_view_size array_view_default = 0 \<and>
   array_view_is_null (reset v) \<and> array_view_size (reset v) = 0 \<and>
   (\<forall>s. slice_count dbg v offs c = Inr s \<and> array_view_is_null s \<longrightarrow> array_view_size s = 0) \<and>
   (\<forall>s. slice_offset dbg v offs = Inr s \<and> array_view_is_null s \<longrightarrow> array_view_size s = 0) \<and>
   array_view_is_null (array_view_of None n) \<and> array_view_size (array_view_of None n) = n"
proof -
  have sc: "array_view_size s = 0"
    if "slice_count dbg v offs c = Inr s" "array_view_is_null s" for offs c s
    using that
    by (auto simp: slice_count_def array_view_is_null_def array_view_data_def
        array_view_size_def array_view_default_def array_view_of_def ptr_add_def
        split: if_splits option.splits)
  have sl: "array_view_size s = 0"
    if "slice_offset dbg v offs = Inr s" "array_view_is_null s" for offs s
    using that sc
    by (auto simp: slice_offset_def array_view_size_def array_view_default_def split: if_splits)
  have it: "iterator_eq dbg (array_view_begin this v) (array_view_end this v) = Inr True"
    if "array_view_is_null v \<or> array_view_empty v"
    using that
    by (auto simp: iterator_eq_def debug_check_def check_same_parent_def array_view_begin_def
        array_view_end_def make_iterator_def iterator_of_def array_view_is_null_def
        array_view_empty_def)
  have at: "array_view_at mem v i = Inl NullAccess"
    if "array_view_is_null v \<or> array_view_empty v"
    using that by (auto simp: array_view_at_def check_not_null_def array_view_is_null_def)
  show ?thesis
    using sc sl it at
    by (auto simp: array_view_empty_def array_view_is_null_def array_view_data_def
        array_view_size_def array_view_default_def reset_def array_view_of_def)
qed

theorem null_or_empty_view_witness:
  "array_view_is_null array_view_default \<and>
   array_view_empty (array_view_of (Some 100) 0) \<and>
   iterator_eq True (array_view_begin 3 array_view_default) (array_view_end 3 array_view_default)
     = Inr True \<and>
   array_view_at example_mem array_view_default 0 = Inl NullAccess \<and>
   array_view_at example_mem (array_view_of (Some 100) 0) 0 = Inl NullAccess \<and>
   slice_count True example_view 2 0 = Inr array_view_default \<and>
   array_view_is_null array_view_default \<and> array_view_size array_view_default = 0"
  using null_or_empty_view [of array_view_default True 3 example_mem 0 0 0 0]
    null_or_empty_view [of "array_view_of (Some 100) 0" True 3 example_mem 0 0 0 0]
    null_or_empty_view [of example_view True 1 example_mem 0 2 0 0]
  by (simp add: array_view_is_null_def array_view_empty_def array_view_data_def
      array_view_size_def array_view_default_def array_view_of_def slice_count_def)

text \<open>
  The view built from an absent pointer and the count 5 is null, and its size is 5.
\<close>

theorem null_view_size_counterexample:
  "array_view_is_null (array_view_of None 5) \<and>
   array_view_size (array_view_of None 5) = 5 \<and>
   array_view_size (array_view_of None 5) \<noteq> 0"
  by (simp add: array_view_is_null_def array_view_data_def array_view_size_def
      array_view_of_def)

section \<open>Equality of views\<close>








end
